theory Spec2Isabelle
  imports Main
begin

section \<open>JavaScript values shared by both source files\<close>

text \<open>
  A thrown value. \<^verbatim>\<open>component.ts\<close> throws \<^verbatim>\<open>new Error(...)\<close>; the plugin's
  catch handler reads \<^verbatim>\<open>error.message\<close> of whatever the callback failed with.
  Every error object carries its message.
\<close>

datatype js_error = Error string | AbortError string | TypeError string

fun message :: "js_error \<Rightarrow> string" where
  "message (Error m) = m"
| "message (AbortError m) = m"
| "message (TypeError m) = m"

section \<open>core/decorators/component.ts\<close>

subsection \<open>Classes, prototypes and instances\<close>

text \<open>
  The decorator works on classes. A class is described by its \<^verbatim>\<open>extends\<close> chain:
  \<^item> \<open>Base m ctor\<close> is \<^verbatim>\<open>class C { className() {...}  constructor(...args) { ctor } }\<close>;
    \<open>m\<close> is \<open>Some s\<close> when the class body declares a method \<^verbatim>\<open>className\<close> (returning the
    string \<open>s\<close>), \<open>None\<close> when it declares none;
  \<^item> \<open>Extends p m super_args ctor\<close> is \<^verbatim>\<open>class C extends p { ... constructor(...args)
    { super(...super_args(args)); ctor } }\<close>;
  \<^item> \<open>NewConstructorFunction c\<close> is the class \<^verbatim>\<open>newConstructorFunction\<close> that one call
    \<^verbatim>\<open>component(c)\<close> declares and returns.

  Each class owns one prototype object, whose own \<^verbatim>\<open>className\<close> property is the \<open>m\<close> above and
  whose \<^verbatim>\<open>[[Prototype]]\<close> is the prototype of the class it extends.

  A constructor body is any function of the arguments and of the instance under construction
  that returns the instance or throws. It cannot change the instance's prototype.
\<close>

record component_object =
  componentStatus :: "string option"
  props :: "(string \<times> string option) list"

datatype 'a cls =
    Base "string option" "'a \<Rightarrow> component_object \<Rightarrow> js_error + component_object"
  | Extends "'a cls" "string option" "'a \<Rightarrow> 'a"
      "'a \<Rightarrow> component_object \<Rightarrow> js_error + component_object"
  | NewConstructorFunction "'a cls"

text \<open>
  The address of the prototype object of a class. A class is declared, and its prototype
  allocated, after the class it extends: along one \<^verbatim>\<open>extends\<close> chain, which is all that one
  \<^verbatim>\<open>new\<close> meets, the addresses count up from the root class, and two classes of the chain have
  the same prototype only when they are the same class.
\<close>

fun prototype :: "'a cls \<Rightarrow> nat" where
  "prototype (Base m ctor) = 0"
| "prototype (Extends p m super_args ctor) = Suc (prototype p)"
| "prototype (NewConstructorFunction c) = Suc (prototype c)"

text \<open>
  \<^verbatim>\<open>Object.getPrototypeOf(this)\<close>, for \<open>this\<close> the instance that \<^verbatim>\<open>new target(...)\<close> allocated.
\<close>

definition getPrototypeOf :: "'a cls \<Rightarrow> nat" where
  "getPrototypeOf target = prototype target"

text \<open>
  What an instance under construction looks like from outside: the object itself, and the
  \<^verbatim>\<open>setStatus\<close> calls the decorator has made on it, oldest first.
\<close>

record construction =
  this :: component_object
  setStatus_calls :: "string list"

text \<open>The result of \<^verbatim>\<open>cn\<close>, of type \<^verbatim>\<open>string | number\<close>: a string or \<^verbatim>\<open>NaN\<close>.\<close>

datatype cn_value = Str string | NaN

text \<open>
  \<^verbatim>\<open>===\<close> on two results of \<^verbatim>\<open>cn\<close>: strings are compared by content, and \<^verbatim>\<open>NaN\<close> is equal
  to nothing, itself included.
\<close>

fun strict_equal :: "cn_value \<Rightarrow> cn_value \<Rightarrow> bool" where
  "strict_equal (Str a) (Str b) = (a = b)"
| "strict_equal _ _ = False"

text \<open>
  The property read \<^verbatim>\<open>elm.className\<close>, for \<open>elm\<close> the prototype of class \<open>c\<close> or an instance whose
  prototype that is (an instance has no own \<^verbatim>\<open>className\<close>): the first \<^verbatim>\<open>className\<close> met on the
  way up the prototype chain. The prototype of \<^verbatim>\<open>newConstructorFunction\<close> has none of its own.
\<close>

fun className :: "'a cls \<Rightarrow> string option" where
  "className (Base m ctor) = m"
| "className (Extends p m super_args ctor) = (case m of Some s \<Rightarrow> Some s | None \<Rightarrow> className p)"
| "className (NewConstructorFunction c) = className c"

text \<open>
  \<^verbatim>\<open>const cn = (elm) => isFunction(elm.className) ? elm.className() : NaN\<close>
\<close>

definition cn :: "'a cls \<Rightarrow> cn_value" where
  "cn elm = (case className elm of Some s \<Rightarrow> Str s | None \<Rightarrow> NaN)"

text \<open>
  Modelled from the spec: \<^verbatim>\<open>setStatus\<close> is a method of the component classes, which are not
  among the sources. The decorator's own documentation says what it does: after
  \<^verbatim>\<open>setStatus('ready')\<close> the instance's \<^verbatim>\<open>componentStatus\<close> reads \<^verbatim>\<open>ready\<close>. The call is
  recorded.
\<close>

definition setStatus :: "string \<Rightarrow> construction \<Rightarrow> construction" where
  "setStatus componentStatus' s =
     s\<lparr>this := (this s)\<lparr>componentStatus := Some componentStatus'\<rparr>,
       setStatus_calls := setStatus_calls s @ [componentStatus']\<rparr>"

definition run_body ::
  "('a \<Rightarrow> component_object \<Rightarrow> js_error + component_object) \<Rightarrow> 'a \<Rightarrow> construction
     \<Rightarrow> js_error + construction" where
  "run_body ctor args s =
     (case ctor args (this s) of Inl e \<Rightarrow> Inl e | Inr obj \<Rightarrow> Inr (s\<lparr>this := obj\<rparr>))"

subsection \<open>The decorator\<close>

text \<open>
  \<open>construct isProd target c args s\<close> runs the constructor of class \<open>c\<close> on the instance \<open>s\<close>
  that \<^verbatim>\<open>new target(...)\<close> allocated, so \<^verbatim>\<open>Object.getPrototypeOf(this)\<close> is the prototype of
  \<open>target\<close>. \<open>isProd\<close> is the build constant of that name. The third equation is the
  constructor of \<^verbatim>\<open>newConstructorFunction\<close>:
  \<^verbatim>\<open>
  super(...args);
  const isSamePrototype = Object.getPrototypeOf(this) === newConstructorFunction.prototype;
  const isSameClassName = cn(this) === cn(newConstructorFunction.prototype);
  if (!isProd && isSamePrototype && !isSameClassName) {
      throw new Error('Need use decorator only for components');
  }
  if (isSamePrototype || isSameClassName) {
      this.setStatus('ready');
  }
  \<close>
\<close>

fun construct :: "bool \<Rightarrow> 'a cls \<Rightarrow> 'a cls \<Rightarrow> 'a \<Rightarrow> construction \<Rightarrow> js_error + construction" where
  "construct isProd target (Base m ctor) args s = run_body ctor args s"
| "construct isProd target (Extends p m super_args ctor) args s =
     (case construct isProd target p (super_args args) s of
        Inl e \<Rightarrow> Inl e
      | Inr s' \<Rightarrow> run_body ctor args s')"
| "construct isProd target (NewConstructorFunction constructorFunction) args s =
     (case construct isProd target constructorFunction args s of
        Inl e \<Rightarrow> Inl e
      | Inr s' \<Rightarrow>
          (let isSamePrototype =
                 (getPrototypeOf target = prototype (NewConstructorFunction constructorFunction));
               isSameClassName =
                 strict_equal (cn target) (cn (NewConstructorFunction constructorFunction))
           in if \<not> isProd \<and> isSamePrototype \<and> \<not> isSameClassName
              then Inl (Error ''Need use decorator only for components'')
              else if isSamePrototype \<or> isSameClassName
              then Inr (setStatus ''ready'' s')
              else Inr s'))"

text \<open>
  \<^verbatim>\<open>export function component(constructorFunction) { class newConstructorFunction extends
  constructorFunction {...}; newConstructorFunction.prototype.constructor = constructorFunction;
  return newConstructorFunction }\<close>
\<close>

definition component :: "'a cls \<Rightarrow> 'a cls" where
  "component constructorFunction = NewConstructorFunction constructorFunction"

text \<open>
  The \<^verbatim>\<open>constructor\<close> property read from the prototype of a class: the class itself, but for
  the decorated class the assignment above makes it the original class.
\<close>

fun prototype_constructor :: "'a cls \<Rightarrow> 'a cls" where
  "prototype_constructor (NewConstructorFunction constructorFunction) = constructorFunction"
| "prototype_constructor c = c"

text \<open>
  \<^verbatim>\<open>new C(...args)\<close>: a fresh object, with the prototype of \<open>C\<close>, no properties and no call
  made on it yet, handed to the constructor of \<open>C\<close>.
\<close>

definition new_object :: construction where
  "new_object = \<lparr>this = \<lparr>componentStatus = None, props = []\<rparr>, setStatus_calls = []\<rparr>"

definition js_new :: "bool \<Rightarrow> 'a cls \<Rightarrow> 'a \<Rightarrow> js_error + construction" where
  "js_new isProd C args = construct isProd C C args new_object"

text \<open>
  The decorated classes met on the way up the \<^verbatim>\<open>extends\<close> chain of a class, the class itself
  first when it is one.
\<close>

fun decorated :: "'a cls \<Rightarrow> 'a cls list" where
  "decorated (Base m ctor) = []"
| "decorated (Extends p m super_args ctor) = decorated p"
| "decorated (NewConstructorFunction c) = NewConstructorFunction c # decorated c"

subsection \<open>Example classes\<close>

text \<open>
  The classes of the decorator's documentation. \<^verbatim>\<open>UIHeight\<close> is a component with a
  \<^verbatim>\<open>className\<close>; \<^verbatim>\<open>UIWidth\<close> extends the decorated \<^verbatim>\<open>UIHeight\<close> and its constructor notes the
  \<^verbatim>\<open>componentStatus\<close> it sees after \<^verbatim>\<open>super(jodit)\<close>, as the documentation's
  \<^verbatim>\<open>console.log(this.componentStatus)\<close> does. \<^verbatim>\<open>UIWidth_inherited\<close> is the same class without
  a \<^verbatim>\<open>className\<close> of its own, and \<^verbatim>\<open>Plain\<close> a class with no \<^verbatim>\<open>className\<close> anywhere.
\<close>

definition keep :: "unit \<Rightarrow> component_object \<Rightarrow> js_error + component_object" where
  "keep args obj = Inr obj"

definition log_status :: "unit \<Rightarrow> component_object \<Rightarrow> js_error + component_object" where
  "log_status args obj =
     Inr (obj\<lparr>props := (''componentStatus seen in constructor'', componentStatus obj) # props obj\<rparr>)"

definition same_args :: "unit \<Rightarrow> unit" where
  "same_args args = args"

definition UIHeight :: "unit cls" where
  "UIHeight = Base (Some ''UIHeight'') keep"

definition UIWidth :: "unit cls" where
  "UIWidth = Extends (component UIHeight) (Some ''UIWidth'') same_args log_status"

definition UIWidth_inherited :: "unit cls" where
  "UIWidth_inherited = Extends (component UIHeight) None same_args log_status"

definition Plain :: "unit cls" where
  "Plain = Base None keep"

section \<open>plugins/ai-assistant/ai-assistant.ts\<close>

subsection \<open>The host editor\<close>

text \<open>
  Modelled from the spec: \<^verbatim>\<open>isAbortError\<close> (\<^verbatim>\<open>jodit/core/helpers/checker/is-abort-error\<close>) is
  not among the sources. The spec's abort error is "a distinguished failure signifying a
  cancelled in-flight operation".
\<close>

fun isAbortError :: "js_error \<Rightarrow> bool" where
  "isAbortError (AbortError m) = True"
| "isAbortError e = False"

text \<open>
  How a promise ends: fulfilled with a value, rejected with an error, or never settled.
\<close>

datatype 'a settlement = Fulfilled 'a | Rejected js_error | Pending

text \<open>Host objects (dialogs, containers, document nodes) are known by reference.\<close>

type_synonym ref = nat

text \<open>
  What the editor \<^verbatim>\<open>jodit\<close> answers while one handler runs: the value of the getter
  \<^verbatim>\<open>jodit.s.html\<close>, the result of \<^verbatim>\<open>jodit.s.current()\<close> (\<open>None\<close> is \<^verbatim>\<open>null\<close>), and the option
  \<^verbatim>\<open>jodit.o.aiAssistant.aiAssistantCallback\<close> (\<open>None\<close> when the application supplied none),
  a function from the prompt and the selected HTML to the way its promise ends.
\<close>

record jodit =
  s_html :: string
  s_current :: "ref option"
  aiAssistantCallback :: "(string \<Rightarrow> string \<Rightarrow> string settlement) option"

record dialog_options =
  buttons :: "string list"
  closeOnClickOverlay :: bool
  closeOnEsc :: bool
  resizable :: bool
  draggable :: bool
  minHeight :: nat

text \<open>
  Everything the plugin does, it does by calling the host: the editor, its selection
  \<^verbatim>\<open>jodit.s\<close>, its event bus \<^verbatim>\<open>jodit.e\<close>, its messages, the dialog, the container and the
  application's callback. The plugin's behaviour is the sequence of these calls. A call that
  creates an object carries the reference it returned. Host calls return normally, with one
  exception: \<^verbatim>\<open>jodit.s.setCursorAfter\<close> throws when it is handed \<^verbatim>\<open>null\<close>.
\<close>

datatype host_call =
    ExtendLang
  | Jodit_dlg dialog_options ref
  | New_UiAiAssistant ref ref
  | Dialog_open ref ref string
  | Dialog_close ref
  | Dialog_destruct ref
  | Container_setPrompt ref string
  | Container_destruct ref
  | S_focus
  | S_html
  | S_current
  | S_setCursorAfter "ref option"
  | S_insertHTML string
  | Call_aiAssistantCallback string string
  | Message_error string
  | E_fire string string

text \<open>
  The container \<^verbatim>\<open>new UiAiAssistant(jodit, {onInsertAfter, onInsert})\<close>: its reference, and
  the dialog \<^verbatim>\<open>__dialog\<close> that its two callbacks captured when it was created.
\<close>

record uiAiAssistant =
  container :: ref
  captured__dialog :: ref

subsection \<open>The plugin object\<close>

text \<open>
  The state of one \<^verbatim>\<open>aiAssistant\<close> plugin: the two properties that \<^verbatim>\<open>@cache\<close> defines on it
  (\<open>None\<close> until defined), the number of host objects created so far (the next fresh
  reference), and the host calls made so far, oldest first.
\<close>

record aiAssistant =
  cached__dialog :: "ref option"
  cached__container :: "uiAiAssistant option"
  allocated :: nat
  calls :: "host_call list"

definition call :: "host_call \<Rightarrow> aiAssistant \<Rightarrow> aiAssistant" where
  "call c s = s\<lparr>calls := calls s @ [c]\<rparr>"

text \<open>\<^verbatim>\<open>constructor(jodit) { super(jodit); extendLang(langs); }\<close>\<close>

definition new_aiAssistant :: aiAssistant where
  "new_aiAssistant =
     call ExtendLang
       \<lparr>cached__dialog = None, cached__container = None, allocated = 0, calls = []\<rparr>"

text \<open>
  Modelled from the spec: the decorator \<^verbatim>\<open>@cache\<close> and the function \<^verbatim>\<open>cached\<close>
  (\<^verbatim>\<open>jodit/core/decorators/cache/cache\<close>) are not among the sources. The spec: "a cached
  dialog and container UI object (created lazily, destroyed on plugin teardown)". A property
  under \<^verbatim>\<open>@cache\<close> runs its getter on the first read and keeps the value; later reads return
  the kept value.
\<close>

definition cache ::
  "(aiAssistant \<Rightarrow> 'v option) \<Rightarrow> ('v \<Rightarrow> aiAssistant \<Rightarrow> aiAssistant) \<Rightarrow>
   (aiAssistant \<Rightarrow> 'v \<times> aiAssistant) \<Rightarrow> aiAssistant \<Rightarrow> 'v \<times> aiAssistant" where
  "cache kept keep_value getter s =
     (case kept s of
        Some v \<Rightarrow> (v, s)
      | None \<Rightarrow> (case getter s of (v, s') \<Rightarrow> (v, keep_value v s')))"

text \<open>
  Modelled from the spec: \<^verbatim>\<open>cached(this, name)\<close>, of the same absent module, is the value
  kept under that property, or \<^verbatim>\<open>null\<close> when the property was never read; it never runs
  the getter.
\<close>

definition cached :: "(aiAssistant \<Rightarrow> 'v option) \<Rightarrow> aiAssistant \<Rightarrow> 'v option" where
  "cached kept s = kept s"

text \<open>\<^verbatim>\<open>this.jodit.dlg({...})\<close>: a new dialog.\<close>

definition jodit_dlg :: "dialog_options \<Rightarrow> aiAssistant \<Rightarrow> ref \<times> aiAssistant" where
  "jodit_dlg options s =
     (allocated s, call (Jodit_dlg options (allocated s)) (s\<lparr>allocated := Suc (allocated s)\<rparr>))"

text \<open>\<^verbatim>\<open>new UiAiAssistant(jodit, {onInsertAfter, onInsert})\<close>: a new container.\<close>

definition new_UiAiAssistant :: "ref \<Rightarrow> aiAssistant \<Rightarrow> uiAiAssistant \<times> aiAssistant" where
  "new_UiAiAssistant dialog s =
     (\<lparr>container = allocated s, captured__dialog = dialog\<rparr>,
      call (New_UiAiAssistant (allocated s) dialog) (s\<lparr>allocated := Suc (allocated s)\<rparr>))"

text \<open>The getter \<^verbatim>\<open>__dialog\<close> as written, and the property that \<^verbatim>\<open>@cache\<close> makes of it.\<close>

definition getter__dialog :: "aiAssistant \<Rightarrow> ref \<times> aiAssistant" where
  "getter__dialog s =
     jodit_dlg \<lparr>buttons = [''fullsize'', ''dialog.close''], closeOnClickOverlay = True,
                closeOnEsc = True, resizable = False, draggable = True, minHeight = 160\<rparr> s"

definition get__dialog :: "aiAssistant \<Rightarrow> ref \<times> aiAssistant" where
  "get__dialog = cache cached__dialog (\<lambda>v s. s\<lparr>cached__dialog := Some v\<rparr>) getter__dialog"

text \<open>
  The getter \<^verbatim>\<open>__container\<close> as written: \<^verbatim>\<open>const { jodit, __dialog } = this\<close> reads the
  property \<^verbatim>\<open>__dialog\<close>, then the container is created around it.
\<close>

definition getter__container :: "aiAssistant \<Rightarrow> uiAiAssistant \<times> aiAssistant" where
  "getter__container s = (case get__dialog s of (dialog, s') \<Rightarrow> new_UiAiAssistant dialog s')"

definition get__container :: "aiAssistant \<Rightarrow> uiAiAssistant \<times> aiAssistant" where
  "get__container =
     cache cached__container (\<lambda>v s. s\<lparr>cached__container := Some v\<rparr>) getter__container"

text \<open>
  The two callbacks handed to the container, closed over \<^verbatim>\<open>jodit\<close> and \<^verbatim>\<open>__dialog\<close>:
  \<^verbatim>\<open>
  onInsertAfter(html) { jodit.s.focus(); jodit.s.setCursorAfter(jodit.s.current()!);
                        jodit.s.insertHTML(html); __dialog.close(); }
  onInsert(html)      { jodit.s.focus(); jodit.s.insertHTML(html); __dialog.close(); }
  \<close>
  The \<^verbatim>\<open>!\<close> after \<^verbatim>\<open>jodit.s.current()\<close> is erased when the file is compiled: with no current
  node, \<^verbatim>\<open>null\<close> is handed to \<^verbatim>\<open>jodit.s.setCursorAfter\<close>, which throws. \<^verbatim>\<open>onInsertAfter\<close> ends
  there, the exception going to the container that called it: nothing is inserted and the
  dialog stays open.
\<close>

definition onInsertAfter :: "jodit \<Rightarrow> ref \<Rightarrow> string \<Rightarrow> aiAssistant \<Rightarrow> aiAssistant" where
  "onInsertAfter jodit dialog html s =
     (case s_current jodit of
        None \<Rightarrow> call (S_setCursorAfter None) (call S_current (call S_focus s))
      | Some node \<Rightarrow>
          call (Dialog_close dialog)
            (call (S_insertHTML html)
               (call (S_setCursorAfter (Some node)) (call S_current (call S_focus s)))))"

definition onInsert :: "ref \<Rightarrow> string \<Rightarrow> aiAssistant \<Rightarrow> aiAssistant" where
  "onInsert dialog html s =
     call (Dialog_close dialog) (call (S_insertHTML html) (call S_focus s))"

text \<open>
  \<^verbatim>\<open>
  onGenerateAiAssistantForm(prompt) {
      this.__dialog.open(this.__container, 'AI Assistant');
      this.__container.setPrompt(prompt);
  }
  \<close>
\<close>

definition onGenerateAiAssistantForm :: "string \<Rightarrow> aiAssistant \<Rightarrow> aiAssistant" where
  "onGenerateAiAssistantForm prompt s =
     (case get__dialog s of (dialog, s1) \<Rightarrow>
      case get__container s1 of (content, s2) \<Rightarrow>
      case get__container (call (Dialog_open dialog (container content) ''AI Assistant'') s2) of
        (c, s3) \<Rightarrow> call (Container_setPrompt (container c) prompt) s3)"

text \<open>
  The executor handed to \<^verbatim>\<open>jodit.async.promise\<close>:
  \<^verbatim>\<open>
  try { const result = await jodit.o.aiAssistant.aiAssistantCallback!(prompt, selectedText);
        resolve(result); }
  catch (error) { reject(error); }
  \<close>
  A callback that the application did not supply is \<^verbatim>\<open>undefined\<close>; calling it throws a
  \<^verbatim>\<open>TypeError\<close> inside the \<^verbatim>\<open>try\<close>.
\<close>

definition not_a_function :: js_error where
  "not_a_function = TypeError ''jodit.o.aiAssistant.aiAssistantCallback is not a function''"

definition executor :: "jodit \<Rightarrow> string \<Rightarrow> string \<Rightarrow> aiAssistant \<Rightarrow> string settlement \<times> aiAssistant" where
  "executor jodit prompt selectedText s =
     (case aiAssistantCallback jodit of
        None \<Rightarrow> (Rejected not_a_function, s)
      | Some callback \<Rightarrow>
          (callback prompt selectedText, call (Call_aiAssistantCallback prompt selectedText) s))"

text \<open>
  Modelled from the spec: \<^verbatim>\<open>jodit.async.promise\<close> is not among the sources. The spec calls it
  "a cancellable promise" around "a single asynchronous operation"; here it settles the way
  its executor settles it.
\<close>

definition async_promise ::
  "(aiAssistant \<Rightarrow> string settlement \<times> aiAssistant) \<Rightarrow> aiAssistant \<Rightarrow> string settlement \<times> aiAssistant" where
  "async_promise run_executor s = run_executor s"

text \<open>\<^verbatim>\<open>.then((htmlFragment) => { jodit.e.fire('ai-assistant-response', htmlFragment); })\<close>\<close>

definition then_handler :: "string \<Rightarrow> aiAssistant \<Rightarrow> aiAssistant" where
  "then_handler htmlFragment s = call (E_fire ''ai-assistant-response'' htmlFragment) s"

text \<open>
  \<^verbatim>\<open>
  .catch(error => {
      if (isAbortError(error)) { return; }
      jodit.message.error(error.message);
      jodit.e.fire('ai-assistant-error', error.message);
  })
  \<close>
\<close>

definition catch_handler :: "js_error \<Rightarrow> aiAssistant \<Rightarrow> aiAssistant" where
  "catch_handler error s =
     (if isAbortError error then s
      else call (E_fire ''ai-assistant-error'' (message error))
             (call (Message_error (message error)) s))"

text \<open>
  \<^verbatim>\<open>
  onInvokeAiAssistant(prompt) {
      const { jodit } = this;
      jodit.s.focus();
      const selectedText = jodit.s.html;
      jodit.async.promise(...).then(...).catch(...);
  }
  \<close>
  The handler and the continuation of its promise are taken as one step: what other
  handlers do while the callback is pending is left out.
\<close>

definition onInvokeAiAssistant :: "jodit \<Rightarrow> string \<Rightarrow> aiAssistant \<Rightarrow> aiAssistant" where
  "onInvokeAiAssistant jodit prompt s =
     (let selectedText = s_html jodit
      in case async_promise (executor jodit prompt selectedText) (call S_html (call S_focus s)) of
           (Fulfilled htmlFragment, s') \<Rightarrow> then_handler htmlFragment s'
         | (Rejected error, s') \<Rightarrow> catch_handler error s'
         | (Pending, s') \<Rightarrow> s')"

text \<open>
  \<^verbatim>\<open>
  beforeDestruct(_) {
      cached(this, '__container')?.destruct();
      cached(this, '__dialog')?.destruct();
  }
  \<close>
\<close>

definition beforeDestruct :: "aiAssistant \<Rightarrow> aiAssistant" where
  "beforeDestruct s =
     (let s1 = (case cached cached__container s of
                  Some c \<Rightarrow> call (Container_destruct (container c)) s
                | None \<Rightarrow> s)
      in case cached cached__dialog s1 of
           Some d \<Rightarrow> call (Dialog_destruct d) s1
         | None \<Rightarrow> s1)"

subsection \<open>Events\<close>

text \<open>
  Modelled from the spec: the decorator \<^verbatim>\<open>@watch\<close> is not among the sources. It makes the
  method under it the handler of the named event of the editor's event bus:
  \<^verbatim>\<open>@watch(':generateAiAssistantForm.ai-assistant')\<close> and \<^verbatim>\<open>@watch(':invokeAiAssistant')\<close>. Both
  events carry the prompt.
\<close>

definition watch :: "jodit \<Rightarrow> string \<Rightarrow> string \<Rightarrow> aiAssistant \<Rightarrow> aiAssistant" where
  "watch jodit event prompt s =
     (if event = '':generateAiAssistantForm.ai-assistant'' then onGenerateAiAssistantForm prompt s
      else if event = '':invokeAiAssistant'' then onInvokeAiAssistant jodit prompt s
      else s)"

text \<open>
  What can happen to a plugin between its construction and its teardown: one of its two
  events fires, or the container (once there is one) calls one of the two callbacks it was
  given.
\<close>

datatype happening =
    Fires jodit string string
  | Calls_onInsert string
  | Calls_onInsertAfter jodit string

fun happen :: "happening \<Rightarrow> aiAssistant \<Rightarrow> aiAssistant" where
  "happen (Fires jodit event prompt) s = watch jodit event prompt s"
| "happen (Calls_onInsert html) s =
     (case cached__container s of
        None \<Rightarrow> s
      | Some c \<Rightarrow> onInsert (captured__dialog c) html s)"
| "happen (Calls_onInsertAfter jodit html) s =
     (case cached__container s of
        None \<Rightarrow> s
      | Some c \<Rightarrow> onInsertAfter jodit (captured__dialog c) html s)"

definition happen_all :: "happening list \<Rightarrow> aiAssistant \<Rightarrow> aiAssistant" where
  "happen_all hs s = fold happen hs s"

text \<open>The objects that a sequence of host calls created and destroyed, in order.\<close>

fun dialogs_created :: "host_call list \<Rightarrow> ref list" where
  "dialogs_created [] = []"
| "dialogs_created (Jodit_dlg options d # cs) = d # dialogs_created cs"
| "dialogs_created (c # cs) = dialogs_created cs"

fun containers_created :: "host_call list \<Rightarrow> ref list" where
  "containers_created [] = []"
| "containers_created (New_UiAiAssistant c d # cs) = c # containers_created cs"
| "containers_created (c # cs) = containers_created cs"

fun destructed :: "host_call list \<Rightarrow> ref list" where
  "destructed [] = []"
| "destructed (Container_destruct c # cs) = c # destructed cs"
| "destructed (Dialog_destruct d # cs) = d # destructed cs"
| "destructed (c # cs) = destructed cs"

fun callback_calls :: "host_call list \<Rightarrow> (string \<times> string) list" where
  "callback_calls [] = []"
| "callback_calls (Call_aiAssistantCallback prompt html # cs) = (prompt, html) # callback_calls cs"
| "callback_calls (c # cs) = callback_calls cs"

fun fired :: "host_call list \<Rightarrow> (string \<times> string) list" where
  "fired [] = []"
| "fired (E_fire event payload # cs) = (event, payload) # fired cs"
| "fired (c # cs) = fired cs"

fun messages :: "host_call list \<Rightarrow> string list" where
  "messages [] = []"
| "messages (Message_error m # cs) = m # messages cs"
| "messages (c # cs) = messages cs"

fun inserted :: "host_call list \<Rightarrow> string list" where
  "inserted [] = []"
| "inserted (S_insertHTML html # cs) = html # inserted cs"
| "inserted (c # cs) = inserted cs"

fun creates :: "host_call \<Rightarrow> bool" where
  "creates (Jodit_dlg options d) = True"
| "creates (New_UiAiAssistant c d) = True"
| "creates c = False"

text \<open>
  What holds of a plugin from its construction to its teardown: the dialogs and containers
  that the host was asked to create are the ones kept on the plugin, nothing was destroyed,
  and the container's callbacks captured the kept dialog.
\<close>

definition consistent :: "aiAssistant \<Rightarrow> bool" where
  "consistent s =
     (dialogs_created (calls s) = (case cached__dialog s of None \<Rightarrow> [] | Some d \<Rightarrow> [d])
      \<and> containers_created (calls s) =
          (case cached__container s of None \<Rightarrow> [] | Some c \<Rightarrow> [container c])
      \<and> destructed (calls s) = []
      \<and> (case cached__container s of
            None \<Rightarrow> True
          | Some c \<Rightarrow> cached__dialog s = Some (captured__dialog c)))"

subsection \<open>Example editors\<close>

text \<open>
  Three editors that differ in the application's callback: one whose callback answers with
  a fragment, one whose callback fails with an ordinary error, one whose callback fails with
  an abort error. \<open>session\<close> is a user opening the form and invoking the assistant.
\<close>

definition answering :: "string \<Rightarrow> string \<Rightarrow> string settlement" where
  "answering prompt html = Fulfilled ''<p>generated</p>''"

definition failing :: "string \<Rightarrow> string \<Rightarrow> string settlement" where
  "failing prompt html = Rejected (Error ''quota exceeded'')"

definition aborting :: "string \<Rightarrow> string \<Rightarrow> string settlement" where
  "aborting prompt html = Rejected (AbortError ''aborted'')"

definition editor :: "(string \<Rightarrow> string \<Rightarrow> string settlement) \<Rightarrow> jodit" where
  "editor callback =
     \<lparr>s_html = ''<b>selected</b>'', s_current = Some 7, aiAssistantCallback = Some callback\<rparr>"

definition session :: "happening list" where
  "session =
     [Fires (editor answering) '':generateAiAssistantForm.ai-assistant'' ''make it short'',
      Fires (editor answering) '':invokeAiAssistant'' ''make it short'']"

section \<open>Properties of the component decorator\<close>

lemma run_body_setStatus_calls:
  "run_body ctor args s = Inr s' \<Longrightarrow> setStatus_calls s' = setStatus_calls s"
  by (auto simp: run_body_def split: sum.splits)

lemma prototype_constructor_component: "prototype_constructor (component c) = c"
  by (simp add: component_def)

text \<open>
  A decorated class above which the instance was allocated with another \<^verbatim>\<open>className\<close> makes
  no \<^verbatim>\<open>setStatus\<close> call, and neither does any decorated class beneath it.
\<close>

lemma construct_beneath_target_silent:
  "construct isProd target c args s = Inr s' \<Longrightarrow> prototype c < prototype target \<Longrightarrow>
   \<forall>w \<in> set (decorated c). \<not> strict_equal (cn target) (cn w) \<Longrightarrow>
   setStatus_calls s' = setStatus_calls s"
proof (induction c arbitrary: args s s')
  case (Base m ctor)
  then show ?case by (simp add: run_body_setStatus_calls)
next
  case (Extends p m super_args ctor)
  then show ?case
    by (auto split: sum.splits dest: run_body_setStatus_calls)
next
  case (NewConstructorFunction c)
  then show ?case
    by (auto simp: Let_def getPrototypeOf_def split: sum.splits if_splits)
qed

text \<open>
  The constructor of a decorated class, run on an instance of that very class: once the
  original constructor has returned, it throws when the build is not a production build and
  there is no \<^verbatim>\<open>className\<close>, and ends with \<^verbatim>\<open>setStatus('ready')\<close> otherwise.
\<close>

lemma construct_target_cases:
  "construct isProd (NewConstructorFunction c) (NewConstructorFunction c) args s =
     (case construct isProd (NewConstructorFunction c) c args s of
        Inl e \<Rightarrow> Inl e
      | Inr s0 \<Rightarrow>
          if \<not> isProd \<and> className c = None
          then Inl (Error ''Need use decorator only for components'')
          else Inr (setStatus ''ready'' s0))"
  by (cases "className c") (simp_all add: getPrototypeOf_def cn_def split: sum.splits)

lemma construct_target_ready:
  assumes "construct isProd (NewConstructorFunction c) (NewConstructorFunction c) args s = Inr s'"
  shows "\<exists>s0. construct isProd (NewConstructorFunction c) c args s = Inr s0
              \<and> s' = setStatus ''ready'' s0"
  using assms unfolding construct_target_cases
  by (auto split: sum.splits if_splits)

text \<open>
  Claim C5. For every class decorated with the component decorator and every direct
  instantiation of the decorated class: once the original constructor has completed (in
  state \<open>s0\<close>), and unless this is a non-production build and the class has no \<^verbatim>\<open>className\<close>
  (when the decorator throws instead), \<^verbatim>\<open>setStatus('ready')\<close> is called on the new instance
  and construction returns it with \<^verbatim>\<open>componentStatus\<close> \<^verbatim>\<open>ready\<close>. Conversely every instance
  that \<^verbatim>\<open>new\<close> returns was made this way: the original constructor completed first, and
  \<^verbatim>\<open>setStatus('ready')\<close> was the decorator's last call.
\<close>

theorem decorated_instance_ready:
  "(construct isProd (component constructorFunction) constructorFunction args new_object = Inr s0
      \<and> (isProd \<or> className constructorFunction \<noteq> None) \<longrightarrow>
    js_new isProd (component constructorFunction) args = Inr (setStatus ''ready'' s0))
   \<and> (js_new isProd (component constructorFunction) args = Inr s \<longrightarrow>
        (\<exists>s0. construct isProd (component constructorFunction) constructorFunction args
                 new_object = Inr s0
             \<and> s = setStatus ''ready'' s0
             \<and> setStatus_calls s = setStatus_calls s0 @ [''ready'']
             \<and> componentStatus (this s) = Some ''ready''))"
proof (intro conjI impI)
  assume "construct isProd (component constructorFunction) constructorFunction args new_object
            = Inr s0 \<and> (isProd \<or> className constructorFunction \<noteq> None)"
  then show "js_new isProd (component constructorFunction) args = Inr (setStatus ''ready'' s0)"
    unfolding js_new_def component_def construct_target_cases by auto
next
  assume "js_new isProd (component constructorFunction) args = Inr s"
  then obtain s0 where
    "construct isProd (component constructorFunction) constructorFunction args new_object = Inr s0"
    and "s = setStatus ''ready'' s0"
    unfolding js_new_def component_def by (blast dest: construct_target_ready)
  then show "\<exists>s0. construct isProd (component constructorFunction) constructorFunction args
                 new_object = Inr s0
             \<and> s = setStatus ''ready'' s0
             \<and> setStatus_calls s = setStatus_calls s0 @ [''ready'']
             \<and> componentStatus (this s) = Some ''ready''"
    by (simp add: setStatus_def)
qed

text \<open>
  The decorated \<^verbatim>\<open>UIHeight\<close>, instantiated in a non-production build: its own constructor
  returns the new object untouched, it has a \<^verbatim>\<open>className\<close>, and construction returns the
  object with status \<^verbatim>\<open>ready\<close>.
\<close>

theorem decorated_instance_ready_witness:
  "construct False (component UIHeight) UIHeight () new_object = Inr new_object
   \<and> className UIHeight = Some ''UIHeight''
   \<and> js_new False (component UIHeight) () = Inr (setStatus ''ready'' new_object)
   \<and> setStatus ''ready'' new_object =
       \<lparr>this = \<lparr>componentStatus = Some ''ready'', props = []\<rparr>, setStatus_calls = [''ready'']\<rparr>
   \<and> (\<exists>s0. construct False (component UIHeight) UIHeight () new_object = Inr s0
          \<and> setStatus ''ready'' new_object = setStatus ''ready'' s0
          \<and> componentStatus (this (setStatus ''ready'' new_object)) = Some ''ready'')"
proof -
  have own: "construct False (component UIHeight) UIHeight () new_object = Inr new_object"
    by (simp add: UIHeight_def run_body_def keep_def)
  have name: "className UIHeight = Some ''UIHeight''"
    by (simp add: UIHeight_def)
  note ready = decorated_instance_ready
    [of False UIHeight "()" new_object "setStatus ''ready'' new_object"]
  from name have "False \<or> className UIHeight \<noteq> None" by simp
  with ready own
  have run: "js_new False (component UIHeight) () = Inr (setStatus ''ready'' new_object)"
    by blast
  with ready have "\<exists>s0. construct False (component UIHeight) UIHeight () new_object = Inr s0
          \<and> setStatus ''ready'' new_object = setStatus ''ready'' s0
          \<and> componentStatus (this (setStatus ''ready'' new_object)) = Some ''ready''"
    by blast
  moreover have "setStatus ''ready'' new_object =
       \<lparr>this = \<lparr>componentStatus = Some ''ready'', props = []\<rparr>, setStatus_calls = [''ready'']\<rparr>"
    by (simp add: setStatus_def new_object_def)
  ultimately show ?thesis using own name run by blast
qed

text \<open>
  Claim C9. In a non-production build, directly instantiating a decorated class that has no
  \<^verbatim>\<open>className\<close> function anywhere on its prototype chain, once the class's own constructor has
  returned: \<^verbatim>\<open>cn\<close> is \<^verbatim>\<open>NaN\<close> for the instance and for the prototype alike, the prototypes are
  the same, the two \<^verbatim>\<open>NaN\<close> are not equal, and \<^verbatim>\<open>new\<close> throws the error
  \<^verbatim>\<open>Need use decorator only for components\<close>.
\<close>

theorem missing_className_throws:
  assumes "\<not> isProd"
      and "className constructorFunction = None"
      and "construct isProd (component constructorFunction) constructorFunction args new_object
             = Inr s0"
  shows "cn (component constructorFunction) = NaN
       \<and> getPrototypeOf (component constructorFunction) = prototype (component constructorFunction)
       \<and> \<not> strict_equal (cn (component constructorFunction)) (cn (component constructorFunction))
       \<and> js_new isProd (component constructorFunction) args =
           Inl (Error ''Need use decorator only for components'')"
  using assms
  by (simp add: js_new_def component_def cn_def getPrototypeOf_def)

text \<open>
  The class \<^verbatim>\<open>Plain\<close> declares no \<^verbatim>\<open>className\<close> and its constructor returns; decorated and
  instantiated in a non-production build, it throws.
\<close>

theorem missing_className_throws_witness:
  "className Plain = None
   \<and> construct False (component Plain) Plain () new_object = Inr new_object
   \<and> cn (component Plain) = NaN
   \<and> js_new False (component Plain) () = Inl (Error ''Need use decorator only for components'')"
proof -
  have build: "\<not> False" by simp
  have none: "className Plain = None" by (simp add: Plain_def)
  have returns: "construct False (component Plain) Plain () new_object = Inr new_object"
    by (simp add: Plain_def run_body_def keep_def new_object_def)
  from missing_className_throws [OF build none returns] none returns show ?thesis by simp
qed

text \<open>
  Claim C8. When a decorated class extends another decorated class, constructing the
  derived class should call \<^verbatim>\<open>setStatus('ready')\<close> exactly once, from the outermost decorated
  class, after the whole constructor chain has finished; so the decorator's documentation
  has it, whose derived constructor still reads \<^verbatim>\<open>beforeReady\<close> after \<^verbatim>\<open>super(jodit)\<close>. The code
  does otherwise for \<^verbatim>\<open>UIWidth_inherited\<close>, which extends the decorated \<^verbatim>\<open>UIHeight\<close> and
  inherits its \<^verbatim>\<open>className\<close>, as the documentation's own \<^verbatim>\<open>UIWidth\<close> does: during the \<^verbatim>\<open>super\<close>
  call the inner decorated class finds another prototype but the same \<^verbatim>\<open>className\<close>, and
  calls \<^verbatim>\<open>setStatus('ready')\<close>. The constructor of \<^verbatim>\<open>UIWidth_inherited\<close> already sees \<^verbatim>\<open>ready\<close>,
  and the outermost decorated class sets it a second time, in a non-production and in a
  production build alike.
\<close>

theorem inherited_className_ready_twice:
  "js_new False (component UIWidth_inherited) () =
     Inr \<lparr>this = \<lparr>componentStatus = Some ''ready'',
                  props = [(''componentStatus seen in constructor'', Some ''ready'')]\<rparr>,
          setStatus_calls = [''ready'', ''ready'']\<rparr>
   \<and> js_new True (component UIWidth_inherited) () =
     Inr \<lparr>this = \<lparr>componentStatus = Some ''ready'',
                  props = [(''componentStatus seen in constructor'', Some ''ready'')]\<rparr>,
          setStatus_calls = [''ready'', ''ready'']\<rparr>"
  by (simp add: js_new_def component_def UIWidth_inherited_def UIHeight_def new_object_def
      getPrototypeOf_def cn_def run_body_def keep_def log_status_def same_args_def setStatus_def)

text \<open>
  Where the decorator does keep to its documentation. Let a decorated class \<open>derived\<close> extend
  another decorated class, and let the \<^verbatim>\<open>className\<close> of the instance be unequal to the
  \<^verbatim>\<open>className\<close> read from the prototype of every decorated class beneath the outermost one.
  Then no \<^verbatim>\<open>setStatus\<close> call has been made by the time the constructor of \<open>derived\<close>, and with
  it the whole chain beneath, has finished (state \<open>s0\<close>). If moreover the build is a
  production build or \<open>derived\<close> has a \<^verbatim>\<open>className\<close> (otherwise the decorator throws and
  makes no call at all), construction returns after \<^verbatim>\<open>setStatus('ready')\<close> was called exactly
  once, by the outermost decorated class. Every instance that \<^verbatim>\<open>new\<close> returns was made this
  way.
\<close>

lemma ready_once_from_outermost:
  assumes "derived = Extends (component inner) m super_args ctor"
      and "\<forall>w \<in> set (decorated derived). \<not> strict_equal (cn (component derived)) (cn w)"
  shows "(construct isProd (component derived) derived args new_object = Inr s0 \<longrightarrow>
            setStatus_calls s0 = [])
       \<and> (construct isProd (component derived) derived args new_object = Inr s0
            \<and> (isProd \<or> className derived \<noteq> None) \<longrightarrow>
          js_new isProd (component derived) args = Inr (setStatus ''ready'' s0)
            \<and> setStatus_calls (setStatus ''ready'' s0) = [''ready''])
       \<and> (js_new isProd (component derived) args = Inr s \<longrightarrow>
            (\<exists>s1. construct isProd (component derived) derived args new_object = Inr s1
                 \<and> setStatus_calls s1 = []
                 \<and> s = setStatus ''ready'' s1
                 \<and> setStatus_calls s = [''ready'']))"
proof -
  have beneath: "prototype derived < prototype (component derived)"
    by (simp add: component_def)
  have silent: "setStatus_calls s' = []"
    if "construct isProd (component derived) derived args new_object = Inr s'" for s'
    using construct_beneath_target_silent [OF that beneath assms(2)]
    by (simp add: new_object_def)
  have 1: "construct isProd (component derived) derived args new_object = Inr s0 \<longrightarrow>
            setStatus_calls s0 = []"
    using silent by blast
  have 2: "construct isProd (component derived) derived args new_object = Inr s0
            \<and> (isProd \<or> className derived \<noteq> None) \<longrightarrow>
          js_new isProd (component derived) args = Inr (setStatus ''ready'' s0)
            \<and> setStatus_calls (setStatus ''ready'' s0) = [''ready'']"
  proof
    assume a: "construct isProd (component derived) derived args new_object = Inr s0
            \<and> (isProd \<or> className derived \<noteq> None)"
    then have "js_new isProd (component derived) args = Inr (setStatus ''ready'' s0)"
      unfolding js_new_def component_def construct_target_cases by auto
    moreover from a silent have "setStatus_calls s0 = []" by blast
    ultimately show "js_new isProd (component derived) args = Inr (setStatus ''ready'' s0)
            \<and> setStatus_calls (setStatus ''ready'' s0) = [''ready'']"
      by (simp add: setStatus_def)
  qed
  have 3: "js_new isProd (component derived) args = Inr s \<longrightarrow>
            (\<exists>s1. construct isProd (component derived) derived args new_object = Inr s1
                 \<and> setStatus_calls s1 = []
                 \<and> s = setStatus ''ready'' s1
                 \<and> setStatus_calls s = [''ready''])"
  proof
    assume "js_new isProd (component derived) args = Inr s"
    then obtain s1 where
      s1: "construct isProd (component derived) derived args new_object = Inr s1"
      and s: "s = setStatus ''ready'' s1"
      unfolding js_new_def component_def by (blast dest: construct_target_ready)
    from s1 silent have "setStatus_calls s1 = []" by blast
    with s1 s show "\<exists>s1. construct isProd (component derived) derived args new_object = Inr s1
                 \<and> setStatus_calls s1 = []
                 \<and> s = setStatus ''ready'' s1
                 \<and> setStatus_calls s = [''ready'']"
      by (simp add: setStatus_def)
  qed
  from 1 2 3 show ?thesis by blast
qed

text \<open>
  \<^verbatim>\<open>UIWidth\<close> extends the decorated \<^verbatim>\<open>UIHeight\<close> and declares a \<^verbatim>\<open>className\<close> of its own: its
  constructor sees no status yet, no \<^verbatim>\<open>setStatus\<close> call has been made when it returns, and
  \<^verbatim>\<open>ready\<close> is then set once.
\<close>

lemma ready_once_from_outermost_example:
  "UIWidth = Extends (component UIHeight) (Some ''UIWidth'') same_args log_status
   \<and> list_all (\<lambda>w. \<not> strict_equal (cn (component UIWidth)) (cn w)) (decorated UIWidth)
   \<and> construct False (component UIWidth) UIWidth () new_object =
       Inr \<lparr>this = \<lparr>componentStatus = None,
                    props = [(''componentStatus seen in constructor'', None)]\<rparr>,
            setStatus_calls = []\<rparr>
   \<and> className UIWidth = Some ''UIWidth''
   \<and> js_new False (component UIWidth) () =
       Inr \<lparr>this = \<lparr>componentStatus = Some ''ready'',
                    props = [(''componentStatus seen in constructor'', None)]\<rparr>,
            setStatus_calls = [''ready'']\<rparr>"
proof -
  let ?s0 = "\<lparr>this = \<lparr>componentStatus = None,
                    props = [(''componentStatus seen in constructor'', None)]\<rparr>,
            setStatus_calls = []\<rparr>"
  have shape: "UIWidth = Extends (component UIHeight) (Some ''UIWidth'') same_args log_status"
    by (simp add: UIWidth_def)
  have names: "\<forall>w \<in> set (decorated UIWidth). \<not> strict_equal (cn (component UIWidth)) (cn w)"
    by (simp add: component_def UIWidth_def UIHeight_def cn_def)
  have own: "construct False (component UIWidth) UIWidth () new_object = Inr ?s0"
    by (simp add: component_def UIWidth_def UIHeight_def new_object_def
        getPrototypeOf_def cn_def run_body_def keep_def log_status_def same_args_def)
  have name: "className UIWidth = Some ''UIWidth''"
    by (simp add: UIWidth_def)
  note once = ready_once_from_outermost [OF shape names, of False "()" ?s0]
  from name have "False \<or> className UIWidth \<noteq> None" by simp
  with once own
  have "js_new False (component UIWidth) () = Inr (setStatus ''ready'' ?s0)"
    by blast
  then have run: "js_new False (component UIWidth) () =
       Inr \<lparr>this = \<lparr>componentStatus = Some ''ready'',
                    props = [(''componentStatus seen in constructor'', None)]\<rparr>,
            setStatus_calls = [''ready'']\<rparr>"
    by (simp add: setStatus_def)
  from shape names own name run show ?thesis by (simp add: list_all_iff)
qed

section \<open>Properties of the AI-assistant plugin\<close>

subsection \<open>Host calls\<close>

lemma calls_call [simp]: "calls (call c s) = calls s @ [c]"
  and cached__dialog_call [simp]: "cached__dialog (call c s) = cached__dialog s"
  and cached__container_call [simp]: "cached__container (call c s) = cached__container s"
  and allocated_call [simp]: "allocated (call c s) = allocated s"
  by (simp_all add: call_def)

lemma dialogs_created_append [simp]:
  "dialogs_created (xs @ ys) = dialogs_created xs @ dialogs_created ys"
  by (induction xs rule: dialogs_created.induct) simp_all

lemma containers_created_append [simp]:
  "containers_created (xs @ ys) = containers_created xs @ containers_created ys"
  by (induction xs rule: containers_created.induct) simp_all

lemma destructed_append [simp]: "destructed (xs @ ys) = destructed xs @ destructed ys"
  by (induction xs rule: destructed.induct) simp_all

lemma callback_calls_append [simp]:
  "callback_calls (xs @ ys) = callback_calls xs @ callback_calls ys"
  by (induction xs rule: callback_calls.induct) simp_all

lemma fired_append [simp]: "fired (xs @ ys) = fired xs @ fired ys"
  by (induction xs rule: fired.induct) simp_all

lemma messages_append [simp]: "messages (xs @ ys) = messages xs @ messages ys"
  by (induction xs rule: messages.induct) simp_all

lemma inserted_append [simp]: "inserted (xs @ ys) = inserted xs @ inserted ys"
  by (induction xs rule: inserted.induct) simp_all

subsection \<open>The handler of \<^verbatim>\<open>:invokeAiAssistant\<close>\<close>

text \<open>Every path through the handler, as the host calls it adds.\<close>

lemma onInvokeAiAssistant_calls:
  "calls (onInvokeAiAssistant jodit prompt s) =
     calls s @ [S_focus, S_html] @
     (case aiAssistantCallback jodit of
        None \<Rightarrow> [Message_error (message not_a_function),
                 E_fire ''ai-assistant-error'' (message not_a_function)]
      | Some callback \<Rightarrow>
          Call_aiAssistantCallback prompt (s_html jodit) #
          (case callback prompt (s_html jodit) of
             Fulfilled htmlFragment \<Rightarrow> [E_fire ''ai-assistant-response'' htmlFragment]
           | Rejected error \<Rightarrow>
               if isAbortError error then []
               else [Message_error (message error), E_fire ''ai-assistant-error'' (message error)]
           | Pending \<Rightarrow> []))"
  by (simp add: onInvokeAiAssistant_def async_promise_def executor_def then_handler_def
      catch_handler_def not_a_function_def Let_def split: option.splits settlement.splits)

lemma onInvokeAiAssistant_frame:
  "cached__dialog (onInvokeAiAssistant jodit prompt s) = cached__dialog s"
  "cached__container (onInvokeAiAssistant jodit prompt s) = cached__container s"
  "allocated (onInvokeAiAssistant jodit prompt s) = allocated s"
  by (simp_all add: onInvokeAiAssistant_def async_promise_def executor_def then_handler_def
      catch_handler_def Let_def split: option.splits settlement.splits)

lemma onInvokeAiAssistant_inserted:
  "inserted (calls (onInvokeAiAssistant jodit prompt s)) = inserted (calls s)"
  by (simp add: onInvokeAiAssistant_calls split: option.splits settlement.splits)

text \<open>
  Claim C1. Whenever the application's callback fails during \<^verbatim>\<open>onInvokeAiAssistant\<close>, with
  whatever error, the handler continues in the one catch handler with that error. There an
  abort error is dropped: no message is shown and no event is fired. For every other error
  its message is shown with \<^verbatim>\<open>jodit.message.error\<close> and then an \<^verbatim>\<open>ai-assistant-error\<close> event
  carrying the same message is fired.
\<close>

theorem callback_failure_handled:
  assumes "aiAssistantCallback jodit = Some callback"
      and "callback prompt (s_html jodit) = Rejected error"
  shows "onInvokeAiAssistant jodit prompt s =
           catch_handler error
             (call (Call_aiAssistantCallback prompt (s_html jodit)) (call S_html (call S_focus s)))
       \<and> calls (onInvokeAiAssistant jodit prompt s) =
           calls s @ [S_focus, S_html, Call_aiAssistantCallback prompt (s_html jodit)] @
           (if isAbortError error then []
            else [Message_error (message error), E_fire ''ai-assistant-error'' (message error)])
       \<and> messages (calls (onInvokeAiAssistant jodit prompt s)) =
           messages (calls s) @ (if isAbortError error then [] else [message error])
       \<and> fired (calls (onInvokeAiAssistant jodit prompt s)) =
           fired (calls s) @
           (if isAbortError error then [] else [(''ai-assistant-error'', message error)])"
proof -
  have "onInvokeAiAssistant jodit prompt s =
           catch_handler error
             (call (Call_aiAssistantCallback prompt (s_html jodit)) (call S_html (call S_focus s)))"
    using assms
    by (simp add: onInvokeAiAssistant_def async_promise_def executor_def Let_def)
  moreover have "calls (onInvokeAiAssistant jodit prompt s) =
           calls s @ [S_focus, S_html, Call_aiAssistantCallback prompt (s_html jodit)] @
           (if isAbortError error then []
            else [Message_error (message error), E_fire ''ai-assistant-error'' (message error)])"
    using assms by (simp add: onInvokeAiAssistant_calls)
  ultimately show ?thesis by simp
qed

text \<open>
  A callback that fails with an ordinary error, and one that fails with an abort error.
\<close>

theorem callback_failure_handled_witness:
  "failing ''make it short'' (s_html (editor failing)) = Rejected (Error ''quota exceeded'')
   \<and> calls (onInvokeAiAssistant (editor failing) ''make it short'' new_aiAssistant) =
       [ExtendLang, S_focus, S_html,
        Call_aiAssistantCallback ''make it short'' ''<b>selected</b>'',
        Message_error ''quota exceeded'', E_fire ''ai-assistant-error'' ''quota exceeded'']
   \<and> aborting ''make it short'' (s_html (editor aborting)) = Rejected (AbortError ''aborted'')
   \<and> calls (onInvokeAiAssistant (editor aborting) ''make it short'' new_aiAssistant) =
       [ExtendLang, S_focus, S_html,
        Call_aiAssistantCallback ''make it short'' ''<b>selected</b>'']"
proof -
  have f1: "aiAssistantCallback (editor failing) = Some failing"
    and a1: "aiAssistantCallback (editor aborting) = Some aborting"
    by (simp_all add: editor_def)
  have f2: "failing ''make it short'' (s_html (editor failing)) = Rejected (Error ''quota exceeded'')"
    by (simp add: failing_def)
  have a2: "aborting ''make it short'' (s_html (editor aborting)) = Rejected (AbortError ''aborted'')"
    by (simp add: aborting_def)
  note failed = callback_failure_handled [OF f1 f2, of new_aiAssistant, THEN conjunct2, THEN conjunct1]
  note aborted = callback_failure_handled [OF a1 a2, of new_aiAssistant, THEN conjunct2, THEN conjunct1]
  from failed aborted f2 a2
  show ?thesis by (simp add: new_aiAssistant_def editor_def)
qed

text \<open>
  Claim C2. Whenever the application's callback resolves with an HTML fragment, the handler
  fires exactly one event, \<^verbatim>\<open>ai-assistant-response\<close> carrying that fragment, and shows no
  error message: the only calls it makes are the focus, the read of the selection, the
  callback and that one event.
\<close>

theorem callback_success_fires_response:
  assumes "aiAssistantCallback jodit = Some callback"
      and "callback prompt (s_html jodit) = Fulfilled htmlFragment"
  shows "calls (onInvokeAiAssistant jodit prompt s) =
           calls s @ [S_focus, S_html, Call_aiAssistantCallback prompt (s_html jodit),
                      E_fire ''ai-assistant-response'' htmlFragment]
       \<and> fired (calls (onInvokeAiAssistant jodit prompt s)) =
           fired (calls s) @ [(''ai-assistant-response'', htmlFragment)]
       \<and> messages (calls (onInvokeAiAssistant jodit prompt s)) = messages (calls s)"
  using assms by (simp add: onInvokeAiAssistant_calls)

theorem callback_success_fires_response_witness:
  "answering ''make it short'' (s_html (editor answering)) = Fulfilled ''<p>generated</p>''
   \<and> fired (calls (onInvokeAiAssistant (editor answering) ''make it short'' new_aiAssistant)) =
       [(''ai-assistant-response'', ''<p>generated</p>'')]
   \<and> messages (calls (onInvokeAiAssistant (editor answering) ''make it short'' new_aiAssistant))
       = []"
proof -
  have 1: "aiAssistantCallback (editor answering) = Some answering"
    by (simp add: editor_def)
  have 2: "answering ''make it short'' (s_html (editor answering)) = Fulfilled ''<p>generated</p>''"
    by (simp add: answering_def)
  note fires = callback_success_fires_response [OF 1 2, of new_aiAssistant, THEN conjunct2]
  from fires 2 show ?thesis by (simp add: new_aiAssistant_def)
qed

text \<open>
  Claim C3. For every \<^verbatim>\<open>:invokeAiAssistant\<close> event with prompt \<open>p\<close>, the plugin focuses the
  editor, reads \<^verbatim>\<open>jodit.s.html\<close>, and calls the application's callback with \<open>p\<close> and the HTML
  just read. Whatever the callback does then (resolve, fail or never settle), no second call
  follows: the event adds exactly one callback call.
\<close>

theorem callback_invoked_once:
  assumes "aiAssistantCallback jodit = Some callback"
  shows "\<exists>after.
           calls (watch jodit '':invokeAiAssistant'' p s) =
             calls s @ [S_focus, S_html, Call_aiAssistantCallback p (s_html jodit)] @ after
         \<and> callback_calls after = []
         \<and> callback_calls (calls (watch jodit '':invokeAiAssistant'' p s)) =
             callback_calls (calls s) @ [(p, s_html jodit)]"
  using assms
  by (simp add: watch_def onInvokeAiAssistant_calls split: settlement.splits)

theorem callback_invoked_once_witness:
  "aiAssistantCallback (editor failing) = Some failing
   \<and> callback_calls (calls (watch (editor failing) '':invokeAiAssistant'' ''make it short''
        new_aiAssistant)) = [(''make it short'', ''<b>selected</b>'')]"
proof -
  have 1: "aiAssistantCallback (editor failing) = Some failing"
    by (simp add: editor_def)
  from callback_invoked_once [OF 1, of "''make it short''" new_aiAssistant] 1
  show ?thesis by (auto simp: new_aiAssistant_def editor_def)
qed

subsection \<open>The cached dialog and container\<close>

lemma get__dialog_cases:
  "get__dialog s =
     (case cached__dialog s of
        Some d \<Rightarrow> (d, s)
      | None \<Rightarrow>
          (allocated s,
           s\<lparr>allocated := Suc (allocated s),
             calls := calls s @ [Jodit_dlg \<lparr>buttons = [''fullsize'', ''dialog.close''],
                closeOnClickOverlay = True, closeOnEsc = True, resizable = False,
                draggable = True, minHeight = 160\<rparr> (allocated s)],
             cached__dialog := Some (allocated s)\<rparr>))"
  by (simp add: get__dialog_def cache_def getter__dialog_def jodit_dlg_def call_def
      split: option.splits)

lemma get__dialog_kept: "get__dialog s = (d, s') \<Longrightarrow> cached__dialog s' = Some d"
  by (auto simp: get__dialog_cases split: option.splits)

lemma get__dialog_again: "cached__dialog s = Some d \<Longrightarrow> get__dialog s = (d, s)"
  by (simp add: get__dialog_cases)

lemma get__container_cases:
  "get__container s =
     (case cached__container s of
        Some c \<Rightarrow> (c, s)
      | None \<Rightarrow>
          (case get__dialog s of (d, s') \<Rightarrow>
             (\<lparr>container = allocated s', captured__dialog = d\<rparr>,
              s'\<lparr>allocated := Suc (allocated s'),
                 calls := calls s' @ [New_UiAiAssistant (allocated s') d],
                 cached__container := Some \<lparr>container = allocated s', captured__dialog = d\<rparr>\<rparr>)))"
  by (simp add: get__container_def cache_def getter__container_def new_UiAiAssistant_def call_def
      split: option.splits prod.splits)

lemma get__container_kept: "get__container s = (c, s') \<Longrightarrow> cached__container s' = Some c"
  by (auto simp: get__container_cases split: option.splits prod.splits)

lemma get__container_again: "cached__container s = Some c \<Longrightarrow> get__container s = (c, s)"
  by (simp add: get__container_cases)

lemma consistent_get__dialog:
  "consistent s \<Longrightarrow> get__dialog s = (d, s') \<Longrightarrow> consistent s'"
  by (auto simp: consistent_def get__dialog_cases split: option.splits)

lemma consistent_get__container:
  "consistent s \<Longrightarrow> get__container s = (c, s') \<Longrightarrow> consistent s'"
  by (auto simp: consistent_def get__container_cases get__dialog_cases
      split: option.splits prod.splits)

lemma consistent_call:
  "consistent s \<Longrightarrow> dialogs_created [c] = [] \<Longrightarrow> containers_created [c] = [] \<Longrightarrow>
   destructed [c] = [] \<Longrightarrow> consistent (call c s)"
  by (simp add: consistent_def split: option.splits)

lemma consistent_onGenerateAiAssistantForm:
  assumes "consistent s"
  shows "consistent (onGenerateAiAssistantForm prompt s)"
proof -
  obtain d s1 where 1: "get__dialog s = (d, s1)" by (cases "get__dialog s")
  obtain c s2 where 2: "get__container s1 = (c, s2)" by (cases "get__container s1")
  let ?opened = "call (Dialog_open d (container c) ''AI Assistant'') s2"
  obtain c' s3 where 3: "get__container ?opened = (c', s3)" by (cases "get__container ?opened")
  have "consistent s1" using assms 1 by (rule consistent_get__dialog)
  then have "consistent s2" using 2 by (rule consistent_get__container)
  then have "consistent ?opened" by (rule consistent_call) simp_all
  then have "consistent s3" using 3 by (rule consistent_get__container)
  then have "consistent (call (Container_setPrompt (container c') prompt) s3)"
    by (rule consistent_call) simp_all
  with 1 2 3 show ?thesis by (simp add: onGenerateAiAssistantForm_def)
qed

lemma consistent_onInvokeAiAssistant:
  "consistent s \<Longrightarrow> consistent (onInvokeAiAssistant jodit prompt s)"
  by (simp add: consistent_def onInvokeAiAssistant_calls onInvokeAiAssistant_frame
      split: option.splits settlement.splits)

lemma consistent_happen: "consistent s \<Longrightarrow> consistent (happen h s)"
proof (cases h)
  case (Fires jodit event prompt)
  assume "consistent s"
  with Fires show ?thesis
    by (simp add: watch_def consistent_onGenerateAiAssistantForm consistent_onInvokeAiAssistant)
next
  case (Calls_onInsert html)
  assume "consistent s"
  with Calls_onInsert show ?thesis
    by (auto simp: onInsert_def consistent_def split: option.splits)
next
  case (Calls_onInsertAfter jodit html)
  assume "consistent s"
  with Calls_onInsertAfter show ?thesis
    by (auto simp: onInsertAfter_def consistent_def split: option.splits)
qed

lemma consistent_happen_all: "consistent s \<Longrightarrow> consistent (happen_all hs s)"
  unfolding happen_all_def by (induction hs arbitrary: s) (simp_all add: consistent_happen)

lemma consistent_new_aiAssistant: "consistent new_aiAssistant"
  by (simp add: consistent_def new_aiAssistant_def call_def)

lemma cached__dialog_happen:
  "cached__dialog s = Some d \<Longrightarrow> cached__dialog (happen h s) = Some d"
proof (cases h)
  case (Fires jodit event prompt)
  assume d: "cached__dialog s = Some d"
  have "cached__dialog (onGenerateAiAssistantForm prompt s) = Some d"
    using d
    by (auto simp: onGenerateAiAssistantForm_def get__dialog_cases get__container_cases
        split: option.splits prod.splits)
  with d Fires show ?thesis by (simp add: watch_def onInvokeAiAssistant_frame)
next
  case (Calls_onInsert html)
  assume "cached__dialog s = Some d"
  with Calls_onInsert show ?thesis by (simp add: onInsert_def split: option.splits)
next
  case (Calls_onInsertAfter jodit html)
  assume "cached__dialog s = Some d"
  with Calls_onInsertAfter show ?thesis by (simp add: onInsertAfter_def split: option.splits)
qed

lemma cached__container_happen:
  "cached__container s = Some c \<Longrightarrow> cached__container (happen h s) = Some c"
proof (cases h)
  case (Fires jodit event prompt)
  assume c: "cached__container s = Some c"
  have "cached__container (onGenerateAiAssistantForm prompt s) = Some c"
    using c
    by (auto simp: onGenerateAiAssistantForm_def get__dialog_cases get__container_cases
        split: option.splits prod.splits)
  with c Fires show ?thesis by (simp add: watch_def onInvokeAiAssistant_frame)
next
  case (Calls_onInsert html)
  assume "cached__container s = Some c"
  with Calls_onInsert show ?thesis by (simp add: onInsert_def)
next
  case (Calls_onInsertAfter jodit html)
  assume "cached__container s = Some c"
  with Calls_onInsertAfter show ?thesis by (simp add: onInsertAfter_def split: option.splits)
qed

lemma cached__dialog_happen_all:
  "cached__dialog s = Some d \<Longrightarrow> cached__dialog (happen_all hs s) = Some d"
  unfolding happen_all_def by (induction hs arbitrary: s) (simp_all add: cached__dialog_happen)

lemma cached__container_happen_all:
  "cached__container s = Some c \<Longrightarrow> cached__container (happen_all hs s) = Some c"
  unfolding happen_all_def by (induction hs arbitrary: s) (simp_all add: cached__container_happen)

lemma beforeDestruct_calls:
  "calls (beforeDestruct s) =
     calls s
     @ (case cached__container s of None \<Rightarrow> [] | Some c \<Rightarrow> [Container_destruct (container c)])
     @ (case cached__dialog s of None \<Rightarrow> [] | Some d \<Rightarrow> [Dialog_destruct d])"
  by (simp add: beforeDestruct_def cached_def Let_def split: option.splits)

text \<open>The state of the example session, and what its two properties hold.\<close>

lemma session_state:
  "happen_all session new_aiAssistant =
     \<lparr>cached__dialog = Some 0,
      cached__container = Some \<lparr>container = 1, captured__dialog = 0\<rparr>,
      allocated = 2,
      calls =
        [ExtendLang,
         Jodit_dlg \<lparr>buttons = [''fullsize'', ''dialog.close''], closeOnClickOverlay = True,
           closeOnEsc = True, resizable = False, draggable = True, minHeight = 160\<rparr> 0,
         New_UiAiAssistant 1 0,
         Dialog_open 0 1 ''AI Assistant'',
         Container_setPrompt 1 ''make it short'',
         S_focus, S_html,
         Call_aiAssistantCallback ''make it short'' ''<b>selected</b>'',
         E_fire ''ai-assistant-response'' ''<p>generated</p>'']\<rparr>"
  by (simp add: happen_all_def session_def watch_def onGenerateAiAssistantForm_def
      onInvokeAiAssistant_def async_promise_def executor_def then_handler_def
      get__dialog_cases get__container_cases new_aiAssistant_def call_def editor_def
      answering_def)

text \<open>
  Claim C4 fails as it is written. In the example session the callback resolves with a
  fragment, and the plugin fires \<^verbatim>\<open>ai-assistant-response\<close> with it; it makes no
  \<^verbatim>\<open>jodit.s.insertHTML\<close> call and does not close the dialog.
\<close>

theorem success_inserts_nothing:
  "answering ''make it short'' ''<b>selected</b>'' = Fulfilled ''<p>generated</p>''
   \<and> inserted (calls (happen_all session new_aiAssistant)) = []
   \<and> calls (happen_all session new_aiAssistant) =
        [ExtendLang,
         Jodit_dlg \<lparr>buttons = [''fullsize'', ''dialog.close''], closeOnClickOverlay = True,
           closeOnEsc = True, resizable = False, draggable = True, minHeight = 160\<rparr> 0,
         New_UiAiAssistant 1 0,
         Dialog_open 0 1 ''AI Assistant'',
         Container_setPrompt 1 ''make it short'',
         S_focus, S_html,
         Call_aiAssistantCallback ''make it short'' ''<b>selected</b>'',
         E_fire ''ai-assistant-response'' ''<p>generated</p>'']"
  by (simp add: session_state answering_def)

text \<open>
  With no current node, \<^verbatim>\<open>onInsertAfter\<close> stops at \<^verbatim>\<open>jodit.s.setCursorAfter\<close>.
\<close>

lemma onInsertAfter_without_current:
  "s_current jodit = None \<Longrightarrow>
   calls (onInsertAfter jodit dialog html s) =
     calls s @ [S_focus, S_current, S_setCursorAfter None]"
  by (simp add: onInsertAfter_def)

text \<open>
  Claim C4, amended. The handler of \<^verbatim>\<open>:invokeAiAssistant\<close> never calls \<^verbatim>\<open>jodit.s.insertHTML\<close>
  itself; for a successful callback result it fires \<^verbatim>\<open>ai-assistant-response\<close> with the
  fragment. A fragment is inserted when the container calls one of the two callbacks the
  plugin gave it: \<^verbatim>\<open>onInsert(html)\<close> focuses the editor, calls \<^verbatim>\<open>jodit.s.insertHTML(html)\<close> and
  then closes the dialog; \<^verbatim>\<open>onInsertAfter(html)\<close>, when the selection has a current node,
  focuses the editor, moves the cursor after that node, calls \<^verbatim>\<open>jodit.s.insertHTML(html)\<close>
  and then closes the dialog. From the plugin's construction on, the dialog these callbacks
  close is the plugin's own cached dialog.
\<close>

theorem fragment_inserted_by_container_callbacks:
  "inserted (calls (onInvokeAiAssistant jodit prompt s)) = inserted (calls s)
   \<and> (aiAssistantCallback jodit = Some callback
        \<and> callback prompt (s_html jodit) = Fulfilled htmlFragment \<longrightarrow>
      calls (onInvokeAiAssistant jodit prompt s) =
        calls s @ [S_focus, S_html, Call_aiAssistantCallback prompt (s_html jodit),
                   E_fire ''ai-assistant-response'' htmlFragment])
   \<and> calls (onInsert dialog html s) = calls s @ [S_focus, S_insertHTML html, Dialog_close dialog]
   \<and> (s_current jodit = Some node \<longrightarrow>
      calls (onInsertAfter jodit dialog html s) =
        calls s @ [S_focus, S_current, S_setCursorAfter (Some node), S_insertHTML html,
                   Dialog_close dialog])
   \<and> (cached__container (happen_all hs new_aiAssistant) = Some c \<longrightarrow>
        cached__dialog (happen_all hs new_aiAssistant) = Some (captured__dialog c)
      \<and> calls (happen (Calls_onInsert html) (happen_all hs new_aiAssistant)) =
          calls (happen_all hs new_aiAssistant)
          @ [S_focus, S_insertHTML html, Dialog_close (captured__dialog c)])
   \<and> (cached__container (happen_all hs new_aiAssistant) = Some c
        \<and> s_current jodit = Some node \<longrightarrow>
      calls (happen (Calls_onInsertAfter jodit html) (happen_all hs new_aiAssistant)) =
          calls (happen_all hs new_aiAssistant)
          @ [S_focus, S_current, S_setCursorAfter (Some node), S_insertHTML html,
             Dialog_close (captured__dialog c)])"
proof -
  have "consistent (happen_all hs new_aiAssistant)"
    using consistent_new_aiAssistant by (rule consistent_happen_all)
  then have kept: "cached__container (happen_all hs new_aiAssistant) = Some c \<longrightarrow>
        cached__dialog (happen_all hs new_aiAssistant) = Some (captured__dialog c)"
    by (auto simp: consistent_def)
  have success: "aiAssistantCallback jodit = Some callback
        \<and> callback prompt (s_html jodit) = Fulfilled htmlFragment \<longrightarrow>
      calls (onInvokeAiAssistant jodit prompt s) =
        calls s @ [S_focus, S_html, Call_aiAssistantCallback prompt (s_html jodit),
                   E_fire ''ai-assistant-response'' htmlFragment]"
    by (simp add: onInvokeAiAssistant_calls)
  show ?thesis
    using kept success
    by (simp add: onInvokeAiAssistant_inserted onInsert_def onInsertAfter_def)
qed

text \<open>
  After the example session, in an editor whose selection has the current node 7, the
  container calls \<^verbatim>\<open>onInsert\<close>, or \<^verbatim>\<open>onInsertAfter\<close>, with the generated fragment.
\<close>

theorem fragment_inserted_by_container_callbacks_witness:
  "cached__container (happen_all session new_aiAssistant) =
     Some \<lparr>container = 1, captured__dialog = 0\<rparr>
   \<and> s_current (editor answering) = Some 7
   \<and> cached__dialog (happen_all session new_aiAssistant) = Some 0
   \<and> calls (happen (Calls_onInsert ''<p>generated</p>'') (happen_all session new_aiAssistant)) =
       calls (happen_all session new_aiAssistant)
       @ [S_focus, S_insertHTML ''<p>generated</p>'', Dialog_close 0]
   \<and> calls (happen (Calls_onInsertAfter (editor answering) ''<p>generated</p>'')
        (happen_all session new_aiAssistant)) =
       calls (happen_all session new_aiAssistant)
       @ [S_focus, S_current, S_setCursorAfter (Some 7), S_insertHTML ''<p>generated</p>'',
          Dialog_close 0]"
proof -
  have c: "cached__container (happen_all session new_aiAssistant) =
     Some \<lparr>container = 1, captured__dialog = 0\<rparr>"
    by (simp add: session_state)
  have n: "s_current (editor answering) = Some 7"
    by (simp add: editor_def)
  note inserts = fragment_inserted_by_container_callbacks
    [where hs = session and c = "\<lparr>container = 1, captured__dialog = 0\<rparr>"
       and jodit = "editor answering" and node = 7 and html = "''<p>generated</p>''"]
  from inserts c have 1: "cached__dialog (happen_all session new_aiAssistant) = Some 0
     \<and> calls (happen (Calls_onInsert ''<p>generated</p>'') (happen_all session new_aiAssistant)) =
       calls (happen_all session new_aiAssistant)
       @ [S_focus, S_insertHTML ''<p>generated</p>'', Dialog_close 0]"
    by simp
  from inserts c n have 2:
    "calls (happen (Calls_onInsertAfter (editor answering) ''<p>generated</p>'')
        (happen_all session new_aiAssistant)) =
       calls (happen_all session new_aiAssistant)
       @ [S_focus, S_current, S_setCursorAfter (Some 7), S_insertHTML ''<p>generated</p>'',
          Dialog_close 0]"
    by simp
  from c n 1 2 show ?thesis by simp
qed

text \<open>
  Claim C7. For every \<^verbatim>\<open>:generateAiAssistantForm.ai-assistant\<close> event with prompt \<open>p\<close>, the
  plugin opens its dialog on its container with the title \<^verbatim>\<open>AI Assistant\<close> and then sets the
  container's prompt to \<open>p\<close>. These are its last two calls; before them it makes nothing but
  the calls that create the dialog and the container, and after them the two are kept on
  the plugin.
\<close>

theorem generate_form_opens_dialog:
  "\<exists>d c made.
      cached__dialog (watch jodit '':generateAiAssistantForm.ai-assistant'' p s) = Some d
    \<and> cached__container (watch jodit '':generateAiAssistantForm.ai-assistant'' p s) = Some c
    \<and> calls (watch jodit '':generateAiAssistantForm.ai-assistant'' p s) =
        calls s @ made @
        [Dialog_open d (container c) ''AI Assistant'', Container_setPrompt (container c) p]
    \<and> list_all creates made"
  by (auto simp: watch_def onGenerateAiAssistantForm_def get__dialog_cases get__container_cases
      split: option.splits prod.splits)

theorem generate_form_opens_dialog_witness:
  "\<exists>d c made.
      cached__dialog (watch (editor answering) '':generateAiAssistantForm.ai-assistant''
        ''make it short'' new_aiAssistant) = Some d
    \<and> cached__container (watch (editor answering) '':generateAiAssistantForm.ai-assistant''
        ''make it short'' new_aiAssistant) = Some c
    \<and> calls (watch (editor answering) '':generateAiAssistantForm.ai-assistant''
        ''make it short'' new_aiAssistant) =
        calls new_aiAssistant @ made @
        [Dialog_open d (container c) ''AI Assistant'',
         Container_setPrompt (container c) ''make it short'']
    \<and> list_all creates made"
  by (rule generate_form_opens_dialog)

text \<open>
  Claim C6. The dialog and the container are created lazily and at most once each: a read
  of \<^verbatim>\<open>__dialog\<close> (of \<^verbatim>\<open>__container\<close>) that returned an object returns the same object, and
  leaves the plugin as it is, after whatever happens to the plugin later; from the plugin's
  construction on, the dialogs (containers) that the host was asked to create are none when
  the property was never read and the kept one otherwise, so at most one. Teardown calls
  \<^verbatim>\<open>destruct()\<close> on exactly the objects that were created, the container first.
\<close>

theorem dialog_and_container_lazy:
  "(get__dialog s = (d, s') \<longrightarrow> get__dialog (happen_all hs s') = (d, happen_all hs s'))
   \<and> (get__container s = (c, s'') \<longrightarrow>
        get__container (happen_all hs s'') = (c, happen_all hs s''))
   \<and> dialogs_created (calls (happen_all hs new_aiAssistant)) =
        (case cached__dialog (happen_all hs new_aiAssistant) of None \<Rightarrow> [] | Some d \<Rightarrow> [d])
   \<and> containers_created (calls (happen_all hs new_aiAssistant)) =
        (case cached__container (happen_all hs new_aiAssistant) of
           None \<Rightarrow> [] | Some c \<Rightarrow> [container c])
   \<and> length (dialogs_created (calls (happen_all hs new_aiAssistant))) \<le> 1
   \<and> length (containers_created (calls (happen_all hs new_aiAssistant))) \<le> 1
   \<and> destructed (calls (beforeDestruct (happen_all hs new_aiAssistant))) =
        containers_created (calls (happen_all hs new_aiAssistant))
        @ dialogs_created (calls (happen_all hs new_aiAssistant))"
proof -
  let ?r = "happen_all hs new_aiAssistant"
  have r: "consistent ?r"
    using consistent_new_aiAssistant by (rule consistent_happen_all)
  have 1: "get__dialog s = (d, s') \<longrightarrow> get__dialog (happen_all hs s') = (d, happen_all hs s')"
    by (auto dest!: get__dialog_kept intro: get__dialog_again cached__dialog_happen_all)
  have 2: "get__container s = (c, s'') \<longrightarrow>
        get__container (happen_all hs s'') = (c, happen_all hs s'')"
    by (auto dest!: get__container_kept intro: get__container_again cached__container_happen_all)
  have 3: "dialogs_created (calls ?r) = (case cached__dialog ?r of None \<Rightarrow> [] | Some d \<Rightarrow> [d])"
    and 4: "containers_created (calls ?r) =
        (case cached__container ?r of None \<Rightarrow> [] | Some c \<Rightarrow> [container c])"
    and 5: "destructed (calls ?r) = []"
    using r by (simp_all add: consistent_def)
  have 6: "length (dialogs_created (calls ?r)) \<le> 1"
    unfolding 3 by (simp split: option.splits)
  have 7: "length (containers_created (calls ?r)) \<le> 1"
    unfolding 4 by (simp split: option.splits)
  have 8: "destructed (calls (beforeDestruct ?r)) =
        containers_created (calls ?r) @ dialogs_created (calls ?r)"
    unfolding 3 4 by (simp add: beforeDestruct_calls 5 split: option.splits)
  from 1 2 3 4 6 7 8 show ?thesis by blast
qed

text \<open>
  A new plugin: the first read of \<^verbatim>\<open>__dialog\<close> creates dialog 0, the first read of
  \<^verbatim>\<open>__container\<close> creates dialog 0 and container 1; after the example session the same objects
  are read again, nothing more was created, and teardown destroys both.
\<close>

theorem dialog_and_container_lazy_witness:
  "fst (get__dialog new_aiAssistant) = 0
   \<and> fst (get__dialog (happen_all session (snd (get__dialog new_aiAssistant)))) = 0
   \<and> fst (get__container new_aiAssistant) = \<lparr>container = 1, captured__dialog = 0\<rparr>
   \<and> fst (get__container (happen_all session (snd (get__container new_aiAssistant)))) =
       \<lparr>container = 1, captured__dialog = 0\<rparr>
   \<and> dialogs_created (calls (happen_all session new_aiAssistant)) = [0]
   \<and> containers_created (calls (happen_all session new_aiAssistant)) = [1]
   \<and> destructed (calls (beforeDestruct (happen_all session new_aiAssistant))) = [1, 0]"
proof -
  have d0: "fst (get__dialog new_aiAssistant) = 0"
    by (simp add: get__dialog_cases new_aiAssistant_def call_def)
  have c0: "fst (get__container new_aiAssistant) = \<lparr>container = 1, captured__dialog = 0\<rparr>"
    by (simp add: get__container_cases get__dialog_cases new_aiAssistant_def call_def)
  have d: "get__dialog new_aiAssistant = (0, snd (get__dialog new_aiAssistant))"
    using d0 by (simp add: prod_eq_iff)
  have c: "get__container new_aiAssistant =
      (\<lparr>container = 1, captured__dialog = 0\<rparr>, snd (get__container new_aiAssistant))"
    using c0 by (simp add: prod_eq_iff)
  note lazy = dialog_and_container_lazy
    [of new_aiAssistant 0 "snd (get__dialog new_aiAssistant)" session
        "\<lparr>container = 1, captured__dialog = 0\<rparr>" "snd (get__container new_aiAssistant)"]
  from lazy d have
    "get__dialog (happen_all session (snd (get__dialog new_aiAssistant))) =
       (0, happen_all session (snd (get__dialog new_aiAssistant)))"
    by blast
  then have 1: "fst (get__dialog (happen_all session (snd (get__dialog new_aiAssistant)))) = 0"
    by simp
  from lazy c have
    "get__container (happen_all session (snd (get__container new_aiAssistant))) =
       (\<lparr>container = 1, captured__dialog = 0\<rparr>,
        happen_all session (snd (get__container new_aiAssistant)))"
    by blast
  then have 2:
    "fst (get__container (happen_all session (snd (get__container new_aiAssistant)))) =
       \<lparr>container = 1, captured__dialog = 0\<rparr>"
    by simp
  from lazy have 3:
    "destructed (calls (beforeDestruct (happen_all session new_aiAssistant))) =
        containers_created (calls (happen_all session new_aiAssistant))
        @ dialogs_created (calls (happen_all session new_aiAssistant))"
    by blast
  have 4: "dialogs_created (calls (happen_all session new_aiAssistant)) = [0]"
    and 5: "containers_created (calls (happen_all session new_aiAssistant)) = [1]"
    by (simp_all add: session_state)
  from d0 c0 1 2 3 4 5 show ?thesis by simp
qed

text \<open>
  Claim C10. Teardown adds one \<^verbatim>\<open>destruct()\<close> call for the container if one is kept on the
  plugin and one for the dialog if one is kept, and nothing else: it asks the host to create
  neither a dialog nor a container, and leaves the two cached properties and the rest of the
  plugin as they were. On a plugin whose two properties were never read it does nothing at
  all.
\<close>

theorem teardown_touches_only_cached:
  "calls (beforeDestruct s) =
     calls s
     @ (case cached__container s of None \<Rightarrow> [] | Some c \<Rightarrow> [Container_destruct (container c)])
     @ (case cached__dialog s of None \<Rightarrow> [] | Some d \<Rightarrow> [Dialog_destruct d])
   \<and> dialogs_created (calls (beforeDestruct s)) = dialogs_created (calls s)
   \<and> containers_created (calls (beforeDestruct s)) = containers_created (calls s)
   \<and> cached__dialog (beforeDestruct s) = cached__dialog s
   \<and> cached__container (beforeDestruct s) = cached__container s
   \<and> allocated (beforeDestruct s) = allocated s
   \<and> (cached__dialog s = None \<and> cached__container s = None \<longrightarrow> beforeDestruct s = s)"
  by (simp add: beforeDestruct_def cached_def Let_def split: option.splits)

text \<open>Teardown of a plugin right after its construction.\<close>

theorem teardown_touches_only_cached_witness:
  "cached__dialog new_aiAssistant = None
   \<and> cached__container new_aiAssistant = None
   \<and> beforeDestruct new_aiAssistant = new_aiAssistant
   \<and> calls (beforeDestruct new_aiAssistant) = [ExtendLang]"
proof -
  have none: "cached__dialog new_aiAssistant = None \<and> cached__container new_aiAssistant = None"
    by (simp add: new_aiAssistant_def)
  from teardown_touches_only_cached [of new_aiAssistant] none
  have "beforeDestruct new_aiAssistant = new_aiAssistant" by blast
  with none show ?thesis by (simp add: new_aiAssistant_def)
qed

end
